theory Spec2Isabelle
  imports Complex_Main "HOL-Library.AList"
begin

section \<open>JavaScript numbers\<close>

text \<open>
  A JavaScript number is an IEEE 754 binary64 value. The finite ones are carried by the
  rational they denote; \<open>rnd\<close> sends an exact rational result to the nearest binary64
  value (ties to the even significand, overflow to an infinity), which is what every
  arithmetic operator and every numeric literal of the language does. Negative zero is
  identified with zero: no operation used by this package tells them apart
  (\<open>!rate\<close>, \<open>Number.isNaN\<close>, \<open>===\<close>, \<open>Math.round(x * 100) / 100\<close>).
\<close>

datatype num = NaN | PInf | NInf | Fin rat

function bits :: "int \<Rightarrow> int" where
  "bits a = (if a \<le> 0 then 0 else bits (a div 2) + 1)"
  by pat_completeness auto
termination
  by (relation "measure nat") auto

declare bits.simps [simp del]

definition shl :: "int \<Rightarrow> int \<Rightarrow> int" where
  "shl a k = (if 0 \<le> k then a * 2 ^ nat k else a)"

definition pow2 :: "int \<Rightarrow> rat" where
  "pow2 e = (if 0 \<le> e then of_int (2 ^ nat e) else 1 / of_int (2 ^ nat (- e)))"

text \<open>\<open>ilog2 a b\<close> is the binary exponent of the positive fraction \<open>a / b\<close>.\<close>

definition ilog2 :: "int \<Rightarrow> int \<Rightarrow> int" where
  "ilog2 a b = (let k = bits a - bits b
                in if shl b k \<le> shl a (- k) then k else k - 1)"

definition roundTiesToEven :: "int \<Rightarrow> int \<Rightarrow> int" where
  "roundTiesToEven n d = (let f = n div d; r = n mod d
     in if 2 * r < d then f else if d < 2 * r then f + 1
        else if even f then f else f + 1)"

definition rnd :: "rat \<Rightarrow> num" where
  "rnd q = (if q = 0 then Fin 0
     else let (a, b) = quotient_of \<bar>q\<bar>;
              e = ilog2 a b;
              t = max e (- 1022) - 52;
              m = roundTiesToEven (shl a (- t)) (shl b t)
          in if 1023 < e \<or> (e = 1023 \<and> m = 9007199254740992)
             then (if 0 < q then PInf else NInf)
             else Fin (if 0 < q then of_int m * pow2 t else - (of_int m * pow2 t)))"

fun isNaN :: "num \<Rightarrow> bool" where
  "isNaN NaN = True"
| "isNaN _ = False"

fun fmul :: "num \<Rightarrow> num \<Rightarrow> num" where
  "fmul (Fin a) (Fin b) = rnd (a * b)"
| "fmul NaN _ = NaN"
| "fmul _ NaN = NaN"
| "fmul (Fin a) PInf = (if a = 0 then NaN else if 0 < a then PInf else NInf)"
| "fmul (Fin a) NInf = (if a = 0 then NaN else if 0 < a then NInf else PInf)"
| "fmul PInf (Fin b) = (if b = 0 then NaN else if 0 < b then PInf else NInf)"
| "fmul NInf (Fin b) = (if b = 0 then NaN else if 0 < b then NInf else PInf)"
| "fmul PInf PInf = PInf"
| "fmul PInf NInf = NInf"
| "fmul NInf PInf = NInf"
| "fmul NInf NInf = PInf"

fun fdiv :: "num \<Rightarrow> num \<Rightarrow> num" where
  "fdiv (Fin a) (Fin b) =
     (if b = 0 then (if a = 0 then NaN else if 0 < a then PInf else NInf)
      else rnd (a / b))"
| "fdiv NaN _ = NaN"
| "fdiv _ NaN = NaN"
| "fdiv (Fin a) PInf = Fin 0"
| "fdiv (Fin a) NInf = Fin 0"
| "fdiv PInf (Fin b) = (if 0 \<le> b then PInf else NInf)"
| "fdiv NInf (Fin b) = (if 0 \<le> b then NInf else PInf)"
| "fdiv PInf PInf = NaN"
| "fdiv PInf NInf = NaN"
| "fdiv NInf PInf = NaN"
| "fdiv NInf NInf = NaN"

fun fadd :: "num \<Rightarrow> num \<Rightarrow> num" where
  "fadd (Fin a) (Fin b) = rnd (a + b)"
| "fadd NaN _ = NaN"
| "fadd _ NaN = NaN"
| "fadd PInf NInf = NaN"
| "fadd NInf PInf = NaN"
| "fadd PInf _ = PInf"
| "fadd NInf _ = NInf"
| "fadd (Fin a) PInf = PInf"
| "fadd (Fin a) NInf = NInf"

text \<open>\<open>a < b\<close> on numbers; a comparison with \<open>NaN\<close> is false.\<close>

fun fless :: "num \<Rightarrow> num \<Rightarrow> bool" where
  "fless (Fin a) (Fin b) = (a < b)"
| "fless NaN _ = False"
| "fless _ NaN = False"
| "fless PInf _ = False"
| "fless _ NInf = False"
| "fless NInf _ = True"
| "fless (Fin a) PInf = True"

text \<open>\<open>Math.round\<close>: the nearest integer, a tie going towards plus infinity.\<close>

fun Math_round :: "num \<Rightarrow> num" where
  "Math_round (Fin q) = Fin (of_int \<lfloor>q + 1 / 2\<rfloor>)"
| "Math_round NaN = NaN"
| "Math_round PInf = PInf"
| "Math_round NInf = NInf"

text \<open>\<^verbatim>\<open>return Math.round(value * 100) / 100;\<close>\<close>

definition defaultRound :: "num \<Rightarrow> num" where
  "defaultRound v = fdiv (Math_round (fmul v (Fin 100))) (Fin 100)"

section \<open>Strings and their conversion to numbers\<close>

text \<open>
  A string is a list of characters, each a code unit below 256 (ASCII and the Latin-1
  supplement). \<open>toUpperCase\<close> can leave that range and can lengthen the string, so its
  result is the list of the code units themselves: the letters \<open>a\<close> to \<open>z\<close> and the
  Latin-1 letters from 224 to 254 (but the division sign, 247) move down by 32, the micro
  sign (181) becomes the Greek capital mu (924), the sharp s (223) becomes \<open>SS\<close>, and
  the y with diaeresis (255) becomes its capital (376). Every other code unit stays.
\<close>

definition upperUnits :: "char \<Rightarrow> nat list" where
  "upperUnits c = (let n = of_char c :: nat
                   in if 97 \<le> n \<and> n \<le> 122 then [n - 32]
                      else if n = 181 then [924]
                      else if n = 223 then [83, 83]
                      else if 224 \<le> n \<and> n \<le> 254 \<and> n \<noteq> 247 then [n - 32]
                      else if n = 255 then [376]
                      else [n])"

definition toUpperCase :: "string \<Rightarrow> nat list" where
  "toUpperCase s = concat (map upperUnits s)"

text \<open>The code units of a string as it stands.\<close>

definition codeUnits :: "string \<Rightarrow> nat list" where
  "codeUnits s = map of_char s"

definition isWhiteSpace :: "char \<Rightarrow> bool" where
  "isWhiteSpace c = (of_char c \<in> {9, 10, 11, 12, 13, 32, 160 :: nat})"

definition isDigit :: "char \<Rightarrow> bool" where
  "isDigit c = (48 \<le> (of_char c :: nat) \<and> (of_char c :: nat) \<le> 57)"

definition trim :: "string \<Rightarrow> string" where
  "trim s = rev (dropWhile isWhiteSpace (rev (dropWhile isWhiteSpace s)))"

text \<open>The value of a digit in a radix up to 16, if the character is one.\<close>

definition digitIn :: "nat \<Rightarrow> char \<Rightarrow> int option" where
  "digitIn radix c = (let n = of_char c :: nat;
        d = (if 48 \<le> n \<and> n \<le> 57 then n - 48
             else if 97 \<le> n \<and> n \<le> 102 then n - 87
             else if 65 \<le> n \<and> n \<le> 70 then n - 55
             else 16)
     in if d < radix then Some (int d) else None)"

fun digitsIn :: "nat \<Rightarrow> int \<Rightarrow> string \<Rightarrow> int option" where
  "digitsIn radix acc [] = Some acc"
| "digitsIn radix acc (c # cs) =
     (case digitIn radix c of
        None \<Rightarrow> None
      | Some d \<Rightarrow> digitsIn radix (acc * int radix + d) cs)"

definition naturalIn :: "nat \<Rightarrow> string \<Rightarrow> int option" where
  "naturalIn radix s = (if s = [] then None else digitsIn radix 0 s)"

text \<open>The exponent part of a decimal literal: nothing, or \<open>e\<close> and a signed integer.\<close>

definition exponentPart :: "string \<Rightarrow> int option" where
  "exponentPart s =
     (case s of
        [] \<Rightarrow> Some 0
      | c # cs \<Rightarrow>
          if c = CHR ''e'' \<or> c = CHR ''E'' then
            (case cs of
               [] \<Rightarrow> None
             | d # ds \<Rightarrow>
                 if d = CHR ''+'' then naturalIn 10 ds
                 else if d = CHR ''-'' then map_option uminus (naturalIn 10 ds)
                 else naturalIn 10 cs)
          else None)"

definition pow10 :: "int \<Rightarrow> rat" where
  "pow10 e = (if 0 \<le> e then of_int (10 ^ nat e) else 1 / of_int (10 ^ nat (- e)))"

definition unsignedDecimal :: "string \<Rightarrow> rat option" where
  "unsignedDecimal s =
     (let ip = takeWhile isDigit s;
          r1 = dropWhile isDigit s;
          dot = (r1 \<noteq> [] \<and> hd r1 = CHR ''.'');
          fp = (if dot then takeWhile isDigit (tl r1) else []);
          r2 = (if dot then dropWhile isDigit (tl r1) else r1)
      in if ip = [] \<and> fp = [] then None
         else case (digitsIn 10 0 (ip @ fp), exponentPart r2) of
                (Some m, Some ex) \<Rightarrow> Some (of_int m * pow10 (ex - int (length fp)))
              | _ \<Rightarrow> None)"

definition decimalLiteral :: "string \<Rightarrow> num" where
  "decimalLiteral s =
     (let neg = (s \<noteq> [] \<and> hd s = CHR ''-'');
          u = (if s \<noteq> [] \<and> (hd s = CHR ''-'' \<or> hd s = CHR ''+'') then tl s else s)
      in if u = ''Infinity'' then (if neg then NInf else PInf)
         else case unsignedDecimal u of
                None \<Rightarrow> NaN
              | Some q \<Rightarrow> rnd (if neg then - q else q))"

definition radixLiteral :: "string \<Rightarrow> num option" where
  "radixLiteral s =
     (case s of
        z # x # ds \<Rightarrow>
          if z \<noteq> CHR ''0'' then None
          else let radix = (if x = CHR ''x'' \<or> x = CHR ''X'' then 16
                            else if x = CHR ''o'' \<or> x = CHR ''O'' then 8
                            else if x = CHR ''b'' \<or> x = CHR ''B'' then 2 else 0 :: nat)
               in if radix = 0 then None
                  else (case naturalIn radix ds of
                          None \<Rightarrow> Some NaN
                        | Some m \<Rightarrow> Some (rnd (of_int m)))
      | _ \<Rightarrow> None)"

text \<open>\<open>Number(s)\<close> for a string \<open>s\<close>.\<close>

definition stringToNumber :: "string \<Rightarrow> num" where
  "stringToNumber s =
     (let t = trim s
      in if t = [] then Fin 0
         else case radixLiteral t of
                Some n \<Rightarrow> n
              | None \<Rightarrow> decimalLiteral t)"

section \<open>Documents\<close>

text \<open>
  A document is a tree of plain data: objects with their own string-keyed properties in
  insertion order, arrays, dates (by their time value, \<open>NaN\<close> for an invalid date) and
  primitives. A hole of an array reads as \<open>undefined\<close> and is kept as such. Two paths of a
  document never reach the same object.

  An object inherits from \<open>Object.prototype\<close>, an array from \<open>Array.prototype\<close>, a date
  from \<open>Date.prototype\<close>. What a read finds under a name the value does not own but may
  inherit (a method, a prototype object, or nothing, by the name and the engine) is no
  plain data: it is \<open>JForeign\<close>, and a run that depends on it leaves the model.
\<close>

datatype jsval =
    JUndefined
  | JNull
  | JBool bool
  | JNum num
  | JStr string
  | JDate num
  | JArr "jsval list"
  | JObj "(string \<times> jsval) list"
  | JForeign

text \<open>
  What the code can raise. \<open>TypeError\<close>: a property is read from \<open>null\<close> or \<open>undefined\<close>
  or assigned on a primitive (the module is strict code), or a value has no primitive
  form. \<open>RangeError\<close>: \<open>toISOString()\<close> of an invalid date. \<open>InvalidRate\<close>: the plugin's
  \<open>new Error("Invalid rate")\<close>. \<open>Thrown\<close>: an error of a collaborator, by its message.
  \<open>Unmodelled\<close> marks a run that leaves the documents above: a named property is written
  on an array or on a date, or a \<open>JForeign\<close> is used.
\<close>

datatype exn = TypeError | RangeError | InvalidRate | Thrown string | Unmodelled

text \<open>What \<open>if (v)\<close> and \<open>!v\<close> test.\<close>

fun truthy :: "jsval \<Rightarrow> bool" where
  "truthy JUndefined = False"
| "truthy JNull = False"
| "truthy (JBool b) = b"
| "truthy (JNum n) = (n \<noteq> Fin 0 \<and> n \<noteq> NaN)"
| "truthy (JStr s) = (s \<noteq> [])"
| "truthy (JDate t) = True"
| "truthy (JArr xs) = True"
| "truthy (JObj ps) = True"
| "truthy JForeign = True"

text \<open>\<open>typeof v === "object" && v !== null\<close>, for plain data.\<close>

fun isObject :: "jsval \<Rightarrow> bool" where
  "isObject (JDate t) = True"
| "isObject (JArr xs) = True"
| "isObject (JObj ps) = True"
| "isObject _ = False"

fun isArray :: "jsval \<Rightarrow> bool" where
  "isArray (JArr xs) = True"
| "isArray _ = False"

text \<open>
  \<open>String(v)\<close> raises a \<open>TypeError\<close> for an object with a property \<open>toString\<close> of its
  own: no value of a document is callable, so neither that property nor the \<open>valueOf\<close>
  the object owns or inherits yields a primitive. An array joins the strings of its
  elements, \<open>undefined\<close> and \<open>null\<close> as the empty string, and raises what the first
  failing element raises.
\<close>

fun stringError :: "jsval \<Rightarrow> exn option" and stringErrors :: "jsval list \<Rightarrow> exn option" where
  "stringError (JObj ps) = (if map_of ps ''toString'' \<noteq> None then Some TypeError else None)"
| "stringError (JArr xs) = stringErrors xs"
| "stringError JForeign = Some Unmodelled"
| "stringError JUndefined = None"
| "stringError JNull = None"
| "stringError (JBool b) = None"
| "stringError (JNum n) = None"
| "stringError (JStr s) = None"
| "stringError (JDate t) = None"
| "stringErrors [] = None"
| "stringErrors (x # xs) =
     (case stringError x of
        Some e \<Rightarrow> Some e
      | None \<Rightarrow> stringErrors xs)"

text \<open>
  \<open>Number(String(v))\<close> where \<open>String(v)\<close> returns, with \<open>undefined\<close> and \<open>null\<close> as a join
  writes them: the empty array is the empty string, a single element stands for itself,
  and two or more elements give a string with a comma, which is no number. The string of
  a number reads back as that number; the strings of a boolean, a date and an object are
  no numbers.
\<close>

fun stringNumber :: "jsval \<Rightarrow> num" where
  "stringNumber JUndefined = Fin 0"
| "stringNumber JNull = Fin 0"
| "stringNumber (JBool b) = NaN"
| "stringNumber (JNum n) = n"
| "stringNumber (JStr s) = stringToNumber s"
| "stringNumber (JDate t) = NaN"
| "stringNumber (JObj ps) = NaN"
| "stringNumber JForeign = NaN"
| "stringNumber (JArr []) = Fin 0"
| "stringNumber (JArr [x]) = stringNumber x"
| "stringNumber (JArr (x # y # zs)) = NaN"

text \<open>
  \<open>Number(v)\<close>. An object converts through its string, \<open>[object Object]\<close> unless it has
  a \<open>toString\<close> of its own; an array through the join of its elements; a date is its
  time value.
\<close>

fun toNumber :: "jsval \<Rightarrow> exn + num" where
  "toNumber JUndefined = Inr NaN"
| "toNumber JNull = Inr (Fin 0)"
| "toNumber (JBool b) = Inr (if b then Fin 1 else Fin 0)"
| "toNumber (JNum n) = Inr n"
| "toNumber (JStr s) = Inr (stringToNumber s)"
| "toNumber (JDate t) = Inr t"
| "toNumber (JObj ps) = (if map_of ps ''toString'' \<noteq> None then Inl TypeError else Inr NaN)"
| "toNumber (JArr xs) =
     (case stringErrors xs of
        Some e \<Rightarrow> Inl e
      | None \<Rightarrow> Inr (stringNumber (JArr xs)))"
| "toNumber JForeign = Inl Unmodelled"

text \<open>
  An array index is an integer from 0 to \<open>2\<^sup>3\<^sup>2 - 2\<close>; any other number names an
  ordinary property of the array.
\<close>

fun arrayIndex :: "num \<Rightarrow> nat option" where
  "arrayIndex (Fin q) =
     (if q = of_int \<lfloor>q\<rfloor> \<and> 0 \<le> q \<and> q < 4294967295 then Some (nat \<lfloor>q\<rfloor>) else None)"
| "arrayIndex _ = None"

definition elemRead :: "jsval list \<Rightarrow> nat \<Rightarrow> jsval" where
  "elemRead xs i = (if i < length xs then xs ! i else JUndefined)"

definition elemWrite :: "jsval list \<Rightarrow> nat \<Rightarrow> jsval \<Rightarrow> jsval list" where
  "elemWrite xs i v =
     (if i < length xs then xs[i := v]
      else xs @ replicate (i - length xs) JUndefined @ [v])"

text \<open>
  \<open>acc[Number(key)]\<close> on an array \<open>acc\<close>. A number that is no index names a property
  no array of a document has and no prototype defines.
\<close>

definition readNumber :: "jsval list \<Rightarrow> num \<Rightarrow> jsval" where
  "readNumber xs n = (case arrayIndex n of Some i \<Rightarrow> elemRead xs i | None \<Rightarrow> JUndefined)"

text \<open>The names every object inherits from \<open>Object.prototype\<close>.\<close>

definition inheritedName :: "string \<Rightarrow> bool" where
  "inheritedName key =
     (key \<in> set [''__proto__'', ''constructor'', ''hasOwnProperty'', ''isPrototypeOf'',
                 ''propertyIsEnumerable'', ''toLocaleString'', ''toString'', ''valueOf'',
                 ''__defineGetter__'', ''__defineSetter__'', ''__lookupGetter__'',
                 ''__lookupSetter__''])"

text \<open>
  \<open>acc[key]\<close> on an object \<open>acc\<close>; on an array only with a key that is no number. An
  object answers with its own property, else with what it inherits under the name, else
  with \<open>undefined\<close>. An array owns its \<open>length\<close>; what an array or a date has under any
  other name is what its prototype defines on the engine at hand.
\<close>

fun readKey :: "jsval \<Rightarrow> string \<Rightarrow> jsval" where
  "readKey (JObj ps) key =
     (case map_of ps key of
        Some v \<Rightarrow> v
      | None \<Rightarrow> if inheritedName key then JForeign else JUndefined)"
| "readKey (JArr xs) key =
     (if key = ''length'' then JNum (Fin (of_nat (length xs))) else JForeign)"
| "readKey (JDate t) key = JForeign"
| "readKey JForeign key = JForeign"
| "readKey _ key = JUndefined"

section \<open>The path accessor\<close>

text \<open>
  \<open>getPathArray\<close> is \<open>path.split(".")\<close>. The memo table in front of it hands out copies
  of what \<open>split\<close> returned for the same string, so it cannot be observed.
\<close>

fun getPathArray :: "string \<Rightarrow> string list" where
  "getPathArray [] = [[]]"
| "getPathArray (c # cs) =
     (if c = CHR ''.'' then [] # getPathArray cs
      else (c # hd (getPathArray cs)) # tl (getPathArray cs))"

text \<open>A path is given as a dotted string or as its segments.\<close>

datatype path = Dotted string | Segments "string list"

fun pathKeys :: "path \<Rightarrow> string list" where
  "pathKeys (Dotted s) = getPathArray s"
| "pathKeys (Segments ks) = ks"

text \<open>
  The callback of the \<open>reduce\<close> in \<open>getNestedValue\<close>. What is read from a \<open>JForeign\<close>
  is not known, and is \<open>JForeign\<close> again.
\<close>

definition getStep :: "jsval \<Rightarrow> string \<Rightarrow> jsval" where
  "getStep acc key =
     (if acc = JForeign then JForeign
      else if truthy acc \<and> isObject acc then
        (case acc of
           JArr xs \<Rightarrow>
             if \<not> isNaN (stringToNumber key) then readNumber xs (stringToNumber key)
             else readKey acc key
         | _ \<Rightarrow> readKey acc key)
      else JUndefined)"

definition getNestedValue :: "jsval \<Rightarrow> path \<Rightarrow> jsval" where
  "getNestedValue obj p = foldl getStep obj (pathKeys p)"

text \<open>
  The assignment at the last segment. On an object it creates or replaces the object's
  own property, but under the name \<open>__proto__\<close>, which an object that does not own it
  hands to the setter of its prototype.
\<close>

fun assignLast :: "jsval \<Rightarrow> string \<Rightarrow> jsval \<Rightarrow> exn + jsval" where
  "assignLast (JArr xs) l v =
     (if \<not> isNaN (stringToNumber l) then
        (case arrayIndex (stringToNumber l) of
           Some i \<Rightarrow> Inr (JArr (elemWrite xs i v))
         | None \<Rightarrow> Inl Unmodelled)
      else Inl Unmodelled)"
| "assignLast (JObj ps) l v =
     (if l = ''__proto__'' \<and> map_of ps l = None then Inl Unmodelled
      else Inr (JObj (AList.update l v ps)))"
| "assignLast (JDate t) l v = Inl Unmodelled"
| "assignLast JForeign l v = Inl Unmodelled"
| "assignLast _ l v = Inl TypeError"

text \<open>
  The loop over the segments before the last. The source walks down by reference and
  assigns in place; the model rebuilds the containers on the way back. The array branch
  keeps every truthy element, the object branch keeps objects only. A walk raises only at
  a primitive it found in the document, before it has created anything, so a write that
  raises leaves the document as it was.
\<close>

fun setWalk :: "jsval \<Rightarrow> string list \<Rightarrow> string \<Rightarrow> jsval \<Rightarrow> exn + jsval" where
  "setWalk target [] l v = assignLast target l v"
| "setWalk target (key # parts) l v =
     (case target of
        JArr xs \<Rightarrow>
          if \<not> isNaN (stringToNumber key) then
            (case arrayIndex (stringToNumber key) of
               None \<Rightarrow> Inl Unmodelled
             | Some i \<Rightarrow>
                 if elemRead xs i = JForeign then Inl Unmodelled
                 else
                   (case setWalk (if \<not> truthy (elemRead xs i) then JObj [] else elemRead xs i)
                           parts l v of
                      Inl e \<Rightarrow> Inl e
                    | Inr c \<Rightarrow> Inr (JArr (elemWrite xs i c))))
          else Inl Unmodelled
      | JObj ps \<Rightarrow>
          if readKey (JObj ps) key = JForeign then Inl Unmodelled
          else
            (case setWalk (if \<not> isObject (readKey (JObj ps) key) then JObj []
                           else readKey (JObj ps) key) parts l v of
               Inl e \<Rightarrow> Inl e
             | Inr c \<Rightarrow> Inr (JObj (AList.update key c ps)))
      | JDate t \<Rightarrow> Inl Unmodelled
      | JForeign \<Rightarrow> Inl Unmodelled
      | _ \<Rightarrow> Inl TypeError)"

definition setNestedValue :: "jsval \<Rightarrow> path \<Rightarrow> jsval \<Rightarrow> exn + jsval" where
  "setNestedValue obj p v =
     (let parts = pathKeys p
      in if parts = [] \<or> last parts = [] then Inr obj
         else setWalk obj (butlast parts) (last parts) v)"

section \<open>The currency code validator\<close>

definition ISO_4217_CODES :: "string list" where
  "ISO_4217_CODES =
    [
     ''USD'', ''EUR'', ''GBP'', ''JPY'', ''CHF'', ''CAD'', ''AUD'', ''NZD'', ''CNY'', ''SEK'',
     ''NOK'', ''DKK'', ''RUB'', ''INR'', ''BRL'', ''ZAR'', ''SGD'', ''HKD'', ''MXN'', ''KRW'',
     ''TRY'', ''PLN'', ''CZK'', ''HUF'', ''ILS'', ''THB'', ''MYR'', ''IDR'', ''PHP'', ''TWD'',
     ''SAR'', ''AED'', ''COP'', ''CLP'', ''PEN'', ''ARS'', ''VND'', ''EGP'', ''UAH'', ''QAR'',
     ''KZT'', ''BGN'', ''RON'', ''HRK'', ''ISK'', ''LTL'', ''LVL'', ''EEK'', ''SKK'', ''YER'',
     ''OMR'', ''BHD'', ''JOD'', ''LBP'', ''KWD'', ''MAD'', ''DZD'', ''TND'', ''LYD'', ''SDG'',
     ''IQD'', ''SYP'', ''MRO'', ''CVE'', ''GMD'', ''GNF'', ''SLL'', ''XOF'', ''XAF'', ''XPF'',
     ''XCD'', ''XDR'', ''XUA'', ''XSU'', ''XTS'', ''XXX'']"

text \<open>
  \<^verbatim>\<open>const list = allowedCodes || ISO_4217_CODES;\<close>
  \<^verbatim>\<open>return typeof code === "string" && list.includes(code.toUpperCase());\<close>
  An array is truthy whatever its length, so only a missing allow-list gives way to the
  built-in one.
\<close>

definition isValidCurrencyCode :: "jsval \<Rightarrow> string list option \<Rightarrow> bool" where
  "isValidCurrencyCode code allowedCodes =
     (let list = (case allowedCodes of Some l \<Rightarrow> l | None \<Rightarrow> ISO_4217_CODES)
      in case code of
           JStr s \<Rightarrow> toUpperCase s \<in> set (map codeUnits list)
         | _ \<Rightarrow> False)"

section \<open>The default cache\<close>

text \<open>
  \<open>SimpleCache\<close>: a map from keys to entries with a time of expiry. The constructor
  takes the time to live in minutes (60 when omitted); \<open>now\<close> is what \<open>Date.now()\<close>
  returns at the call, in milliseconds.
\<close>

record cache_entry =
  entryValue :: num
  expiresAt :: num

record simple_cache =
  store :: "(string \<times> cache_entry) list"
  ttl :: num

definition SimpleCache :: "num \<Rightarrow> simple_cache" where
  "SimpleCache ttlMinutes = \<lparr>store = [], ttl = fmul (fmul ttlMinutes (Fin 60)) (Fin 1000)\<rparr>"

definition isExpired :: "num \<Rightarrow> cache_entry \<Rightarrow> bool" where
  "isExpired now entry = fless (expiresAt entry) now"

definition simple_get :: "string \<Rightarrow> num \<Rightarrow> simple_cache \<Rightarrow> num option \<times> simple_cache" where
  "simple_get key now c =
     (case map_of (store c) key of
        None \<Rightarrow> (None, c)
      | Some entry \<Rightarrow>
          if isExpired now entry then (None, c\<lparr>store := AList.delete key (store c)\<rparr>)
          else (Some (entryValue entry), c))"

definition simple_set :: "string \<Rightarrow> num \<Rightarrow> num \<Rightarrow> simple_cache \<Rightarrow> simple_cache" where
  "simple_set key v now c =
     c\<lparr>store := AList.update key \<lparr>entryValue = v, expiresAt = fadd now (ttl c)\<rparr> (store c)\<rparr>"

definition simple_delete :: "string \<Rightarrow> simple_cache \<Rightarrow> simple_cache" where
  "simple_delete key c = c\<lparr>store := AList.delete key (store c)\<rparr>"

definition simple_clear :: "simple_cache \<Rightarrow> simple_cache" where
  "simple_clear c = c\<lparr>store := []\<rparr>"

section \<open>The plugin and its options\<close>

record field_config =
  sourcePath :: string
  currencyPath :: string
  datePath :: "string option"
  targetPath :: string
  toCurrency :: string

text \<open>
  The injected collaborators act on a world \<open>'w\<close> of their own (the cache's store, the
  rate service, the clock). A call returns what the awaited promise settles with, a
  rejection on the left, and the world after the call. A returned \<open>undefined\<close> is
  \<open>None\<close>.
\<close>

record 'w rate_cache =
  cacheGet :: "string \<Rightarrow> 'w \<Rightarrow> (exn + num option) \<times> 'w"
  cacheSet :: "string \<Rightarrow> num \<Rightarrow> 'w \<Rightarrow> (exn + unit) \<times> 'w"

type_synonym 'w rate_fn = "string \<Rightarrow> string \<Rightarrow> num \<Rightarrow> 'w \<Rightarrow> (exn + num option) \<times> 'w"

text \<open>What the \<open>onError\<close> callback receives.\<close>

record error_context =
  ctxField :: string
  ctxFromCurrency :: string
  ctxToCurrency :: string
  ctxDate :: num
  ctxError :: exn

text \<open>
  The callback is called synchronously and its result is dropped: it acts on the world
  and returns, or throws.
\<close>

type_synonym 'w error_callback = "error_context \<Rightarrow> 'w \<Rightarrow> exn option \<times> 'w"

text \<open>
  The options after destructuring (\<open>fields'\<close> for \<open>fields\<close>). \<open>fallbackRate\<close> is
  present when \<open>typeof fallbackRate === "number"\<close>. Dates are time values;
  \<open>dateTransform\<close> maps the time value of its argument to that of its result, or
  throws. \<open>round\<close> returns a number.
\<close>

record 'w options =
  fields' :: "field_config list"
  getRate :: "'w rate_fn"
  roundFn :: "num \<Rightarrow> num"
  allowedCurrencyCodes :: "string list option"
  onError :: "'w error_callback option"
  fallbackRate :: "num option"
  rollbackOnError :: bool
  cache :: "'w rate_cache option"
  dateTransform :: "(num \<Rightarrow> exn + num) option"

text \<open>
  What the caller passes for \<open>fields\<close> and \<open>getRate\<close> is checked at run time: it is
  either of the expected kind (an array, a function) or some other value.
\<close>

datatype 'a dyn = Other jsval | Given 'a

record 'w plugin_options =
  opt_fields :: "field_config list dyn"
  opt_getRate :: "'w rate_fn dyn"
  opt_round :: "(num \<Rightarrow> num) option"
  opt_allowedCurrencyCodes :: "string list option"
  opt_onError :: "'w error_callback option"
  opt_fallbackRate :: "num option"
  opt_rollbackOnError :: bool
  opt_cache :: "'w rate_cache option"
  opt_dateTransform :: "(num \<Rightarrow> exn + num) option"

text \<open>
  The two errors of the set-up:
  \<^verbatim>\<open>option "fields" must be a non-empty array\<close> and
  \<^verbatim>\<open>option "getRate" must be a function\<close>.
\<close>

datatype config_error = FieldsNotNonEmptyArray | GetRateNotFunction

text \<open>
  \<open>currencyConversionPlugin\<close> up to the registration of the hooks: the result is the
  configuration the hooks close over, or the error thrown to the caller. The hooks are
  registered, and \<open>applyCurrencyConversion\<close> defined, only after both checks.
\<close>

definition currencyConversionPlugin :: "'w plugin_options \<Rightarrow> config_error + 'w options" where
  "currencyConversionPlugin options =
     (case opt_fields options of
        Other v \<Rightarrow> Inl FieldsNotNonEmptyArray
      | Given fs \<Rightarrow>
          if length fs = 0 then Inl FieldsNotNonEmptyArray
          else (case opt_getRate options of
                  Other v \<Rightarrow> Inl GetRateNotFunction
                | Given g \<Rightarrow>
                    Inr \<lparr>fields' = fs, getRate = g,
                         roundFn = (case opt_round options of Some r \<Rightarrow> r | None \<Rightarrow> defaultRound),
                         allowedCurrencyCodes = opt_allowedCurrencyCodes options,
                         onError = opt_onError options,
                         fallbackRate = opt_fallbackRate options,
                         rollbackOnError = opt_rollbackOnError options,
                         cache = opt_cache options,
                         dateTransform = opt_dateTransform options\<rparr>))"

section \<open>The conversion of a document\<close>

text \<open>
  What the surrounding system provides: whether the schema declares a path, the time
  \<open>new Date()\<close> reads, the parsing of a date string, and the text of
  \<open>toISOString()\<close> for a valid date.
\<close>

record 'w host =
  schemaPath :: "string \<Rightarrow> bool"
  clock :: "'w \<Rightarrow> num"
  parseDate :: "string \<Rightarrow> num"
  isoString :: "num \<Rightarrow> string"

text \<open>The lines written to \<open>console.warn\<close>, by what they report.\<close>

datatype warning =
    TargetPathRequired
  | TargetNotInSchema string
  | MissingSourceCurrency string
  | InvalidSourceCurrency string
  | InvalidTargetCurrency string

text \<open>
  What a run reports: a warning, a call of the \<open>onError\<close> callback, or a line on
  \<open>console.error\<close> with the source path and the error.
\<close>

datatype event = Warned warning | ErrorCallback error_context | ErrorLogged string exn

record 'w state =
  doc :: jsval
  world :: "'w"
  events :: "event list"
  convertedFields :: "string list"

datatype 'w step = Continue "'w state" | Break "'w state" | Reject exn "'w state" | Leave

text \<open>
  A run resolves, or its promise rejects with an error, or it leaves the documents of
  this model (see \<open>Unmodelled\<close>).
\<close>

datatype 'w outcome = Resolved "'w state" | Rejected exn "'w state" | OutsideModel

definition warn :: "warning \<Rightarrow> 'w state \<Rightarrow> 'w state" where
  "warn m st = st\<lparr>events := events st @ [Warned m]\<rparr>"

text \<open>The time value of \<open>new Date(n)\<close> for a number \<open>n\<close>.\<close>

fun timeClip :: "num \<Rightarrow> num" where
  "timeClip (Fin q) =
     (if 8640000000000000 < \<bar>q\<bar> then NaN
      else Fin (of_int (if 0 \<le> q then \<lfloor>q\<rfloor> else - \<lfloor>- q\<rfloor>)))"
| "timeClip _ = NaN"

fun isDateLike :: "jsval \<Rightarrow> bool" where
  "isDateLike (JStr s) = True"
| "isDateLike (JNum n) = True"
| "isDateLike (JDate t) = True"
| "isDateLike _ = False"

fun newDate :: "'w host \<Rightarrow> jsval \<Rightarrow> num" where
  "newDate h (JStr s) = parseDate h s"
| "newDate h (JNum n) = timeClip n"
| "newDate h (JDate t) = t"
| "newDate h _ = NaN"

text \<open>
  The conversion date: the date value when it is a string, a number or a date and
  truthy, else the time of the clock; then \<open>dateTransform\<close>, if given.
\<close>

definition conversionDateOf :: "'w host \<Rightarrow> 'w options \<Rightarrow> jsval \<Rightarrow> 'w \<Rightarrow> exn + num" where
  "conversionDateOf h opts dateValue w =
     (let conversionDate =
            (if truthy dateValue \<and> isDateLike dateValue then newDate h dateValue
             else clock h w)
      in case dateTransform opts of
           Some t \<Rightarrow> t conversionDate
         | None \<Rightarrow> Inr conversionDate)"

fun isFinite :: "num \<Rightarrow> bool" where
  "isFinite (Fin q) = True"
| "isFinite _ = False"

definition cacheKeyOf :: "'w host \<Rightarrow> string \<Rightarrow> string \<Rightarrow> num \<Rightarrow> string" where
  "cacheKeyOf h from to conversionDate =
     from @ ''_'' @ to @ ''_'' @ take 10 (isoString h conversionDate)"

text \<open>
  The first half of the \<open>try\<close> block: the cache is asked, then on a miss the resolver,
  whose result is stored when \<open>cache && rate !== undefined && !Number.isNaN(rate)\<close>.
\<close>

definition resolveRate ::
  "'w options \<Rightarrow> string \<Rightarrow> string \<Rightarrow> num \<Rightarrow> string \<Rightarrow> 'w \<Rightarrow> (exn + num option) \<times> 'w" where
  "resolveRate opts from to conversionDate cacheKey w =
     (case (case cache opts of
              Some c \<Rightarrow> cacheGet c cacheKey w
            | None \<Rightarrow> (Inr None, w)) of
        (Inl e, w0) \<Rightarrow> (Inl e, w0)
      | (Inr (Some r), w0) \<Rightarrow> (Inr (Some r), w0)
      | (Inr None, w0) \<Rightarrow>
          (case getRate opts from to conversionDate w0 of
             (Inl e, w1) \<Rightarrow> (Inl e, w1)
           | (Inr None, w1) \<Rightarrow> (Inr None, w1)
           | (Inr (Some r), w1) \<Rightarrow>
               (case cache opts of
                  None \<Rightarrow> (Inr (Some r), w1)
                | Some c \<Rightarrow>
                    if \<not> isNaN r then
                      (case cacheSet c cacheKey r w1 of
                         (Inl e, w2) \<Rightarrow> (Inl e, w2)
                       | (Inr u, w2) \<Rightarrow> (Inr (Some r), w2))
                    else (Inr (Some r), w1))))"

text \<open>
  \<^verbatim>\<open>if (!rate || Number.isNaN(rate)) { if (typeof fallbackRate === "number") rate = fallbackRate;\<close>
  \<^verbatim>\<open>else throw new Error("Invalid rate"); }\<close>
\<close>

definition usableRate :: "'w options \<Rightarrow> num option \<Rightarrow> exn + num" where
  "usableRate opts rate =
     (if rate = None \<or> rate = Some (Fin 0) \<or> rate = Some NaN then
        (case fallbackRate opts of
           Some fb \<Rightarrow> Inr fb
         | None \<Rightarrow> Inl InvalidRate)
      else (case rate of Some r \<Rightarrow> Inr r | None \<Rightarrow> Inl InvalidRate))"

text \<open>
  \<^verbatim>\<open>{ amount: round(Number(amount) * rate), currency: toCurrency, date: conversionDate }\<close>
  or what \<open>Number(amount)\<close> raises.
\<close>

definition convertedValue ::
  "'w options \<Rightarrow> jsval \<Rightarrow> num \<Rightarrow> string \<Rightarrow> num \<Rightarrow> exn + jsval" where
  "convertedValue opts amount rate to conversionDate =
     (case toNumber amount of
        Inl e \<Rightarrow> Inl e
      | Inr n \<Rightarrow>
          Inr (JObj [(''amount'', JNum (roundFn opts (fmul n rate))),
                     (''currency'', JStr to),
                     (''date'', JDate conversionDate)]))"

text \<open>
  The second half of the \<open>try\<close> block, with the rate to apply and the world the first
  half left: the value is built, written at the target path, and the path recorded.
\<close>

definition writeConverted ::
  "'w options \<Rightarrow> field_config \<Rightarrow> jsval \<Rightarrow> num \<Rightarrow> num \<Rightarrow> 'w \<Rightarrow> 'w state
     \<Rightarrow> exn option \<times> 'w state" where
  "writeConverted opts f amount r conversionDate w st =
     (case convertedValue opts amount r (toCurrency f) conversionDate of
        Inl e \<Rightarrow> (Some e, st\<lparr>world := w\<rparr>)
      | Inr cv \<Rightarrow>
          (case setNestedValue (doc st) (Dotted (targetPath f)) cv of
             Inl e \<Rightarrow> (Some e, st\<lparr>world := w\<rparr>)
           | Inr d \<Rightarrow>
               (None, st\<lparr>doc := d, world := w,
                         convertedFields := convertedFields st @ [targetPath f]\<rparr>)))"

text \<open>The \<open>try\<close> block: the error it raises, if any, and the state it leaves.\<close>

definition tryBlock ::
  "'w options \<Rightarrow> field_config \<Rightarrow> jsval \<Rightarrow> string \<Rightarrow> num \<Rightarrow> string \<Rightarrow> 'w state
     \<Rightarrow> exn option \<times> 'w state" where
  "tryBlock opts f amount from conversionDate cacheKey st =
     (case resolveRate opts from (toCurrency f) conversionDate cacheKey (world st) of
        (Inl e, w) \<Rightarrow> (Some e, st\<lparr>world := w\<rparr>)
      | (Inr rate, w) \<Rightarrow>
          (case usableRate opts rate of
             Inl e \<Rightarrow> (Some e, st\<lparr>world := w\<rparr>)
           | Inr r \<Rightarrow> writeConverted opts f amount r conversionDate w st))"

text \<open>
  The rollback loop of \<open>src/index.ts\<close>:
  \<^verbatim>\<open>for (const f of fields) { if (f.targetPath) setNestedValue(doc, f.targetPath, undefined); }\<close>
  It returns the error that stopped it, if any, and the document as it then is.
\<close>

fun rollbackFields :: "jsval \<Rightarrow> field_config list \<Rightarrow> exn option \<times> jsval" where
  "rollbackFields d [] = (None, d)"
| "rollbackFields d (f # fs) =
     (if targetPath f \<noteq> [] then
        (case setNestedValue d (Dotted (targetPath f)) JUndefined of
           Inl e \<Rightarrow> (Some e, d)
         | Inr d' \<Rightarrow> rollbackFields d' fs)
      else rollbackFields d fs)"

text \<open>
  The rollback loop of the second copy of the plugin (\<open>part_000\<close>):
  \<^verbatim>\<open>for (const path of convertedFields) { setNestedValue(doc, path, undefined); }\<close>
\<close>

fun rollbackConverted :: "jsval \<Rightarrow> string list \<Rightarrow> exn option \<times> jsval" where
  "rollbackConverted d [] = (None, d)"
| "rollbackConverted d (p # ps) =
     (case setNestedValue d (Dotted p) JUndefined of
        Inl e \<Rightarrow> (Some e, d)
      | Inr d' \<Rightarrow> rollbackConverted d' ps)"

text \<open>
  The report of the \<open>catch\<close> block: the error goes to the callback, which may throw, or
  to \<open>console.error\<close>.
\<close>

definition report ::
  "'w options \<Rightarrow> field_config \<Rightarrow> string \<Rightarrow> num \<Rightarrow> exn \<Rightarrow> 'w state \<Rightarrow> exn option \<times> 'w state" where
  "report opts f from conversionDate err st =
     (case onError opts of
        Some callback \<Rightarrow>
          (let ctx = \<lparr>ctxField = sourcePath f, ctxFromCurrency = from,
                      ctxToCurrency = toCurrency f, ctxDate = conversionDate,
                      ctxError = err\<rparr>
           in case callback ctx (world st) of
                (thrown, w) \<Rightarrow>
                  (thrown, st\<lparr>world := w, events := events st @ [ErrorCallback ctx]\<rparr>))
      | None \<Rightarrow> (None, st\<lparr>events := events st @ [ErrorLogged (sourcePath f) err]\<rparr>))"

text \<open>
  The \<open>catch\<close> block. After the report, with \<open>rollbackOnError\<close>, the rollback loop \<open>rb\<close>
  of the file at hand runs and the loop over the fields is left. Nothing catches what
  the callback throws or what the rollback loop raises.
\<close>

definition catchBlock ::
  "'w options \<Rightarrow> ('w state \<Rightarrow> exn option \<times> jsval) \<Rightarrow> field_config \<Rightarrow> string \<Rightarrow> num \<Rightarrow> exn
     \<Rightarrow> 'w state \<Rightarrow> 'w step" where
  "catchBlock opts rb f from conversionDate err st =
     (case report opts f from conversionDate err st of
        (Some thrown, sr) \<Rightarrow> Reject thrown sr
      | (None, sr) \<Rightarrow>
          if rollbackOnError opts then
            (case rb sr of
               (None, d) \<Rightarrow> Break (sr\<lparr>doc := d\<rparr>)
             | (Some Unmodelled, d) \<Rightarrow> Leave
             | (Some e, d) \<Rightarrow> Reject e (sr\<lparr>doc := d\<rparr>))
          else Continue sr)"

text \<open>\<^verbatim>\<open>datePath ? getNestedValue(doc, datePath) : undefined\<close>\<close>

definition dateValueAt :: "field_config \<Rightarrow> jsval \<Rightarrow> jsval" where
  "dateValueAt f d =
     (case datePath f of
        None \<Rightarrow> JUndefined
      | Some p \<Rightarrow> if p \<noteq> [] then getNestedValue d (Dotted p) else JUndefined)"

text \<open>
  From the conversion date to the end of the loop body, the same in both files. The
  cache key needs \<open>toISOString()\<close>, which raises a \<open>RangeError\<close> on an invalid date.
  That and the call of \<open>dateTransform\<close> stand outside the \<open>try\<close> block.
\<close>

definition convertField ::
  "'w host \<Rightarrow> 'w options \<Rightarrow> ('w state \<Rightarrow> exn option \<times> jsval) \<Rightarrow> field_config \<Rightarrow> jsval
     \<Rightarrow> string \<Rightarrow> 'w state \<Rightarrow> 'w step" where
  "convertField h opts rb f amount from st =
     (case conversionDateOf h opts (dateValueAt f (doc st)) (world st) of
        Inl e \<Rightarrow> Reject e st
      | Inr conversionDate \<Rightarrow>
          if \<not> isFinite conversionDate then Reject RangeError st
          else (case tryBlock opts f amount from conversionDate
                       (cacheKeyOf h from (toCurrency f) conversionDate) st of
                  (None, st') \<Rightarrow> Continue st'
                | (Some Unmodelled, st') \<Rightarrow> Leave
                | (Some e, st') \<Rightarrow> catchBlock opts rb f from conversionDate e st'))"

text \<open>
  The checks of \<open>src/index.ts\<close> before the conversion date. Whether an amount read
  under an inherited name is missing is not known. A source currency read under one is
  no string.
\<close>

definition processField :: "'w host \<Rightarrow> 'w options \<Rightarrow> field_config \<Rightarrow> 'w state \<Rightarrow> 'w step" where
  "processField h opts f st =
     (if targetPath f = [] then Continue (warn TargetPathRequired st)
      else if \<not> schemaPath h (targetPath f @ ''.amount'') then
        Continue (warn (TargetNotInSchema (targetPath f)) st)
      else
        (let amount = getNestedValue (doc st) (Dotted (sourcePath f))
         in if amount = JForeign then Leave
            else if amount = JUndefined \<or> amount = JNull then Continue st
            else
              (case getNestedValue (doc st) (Dotted (currencyPath f)) of
                 JStr from \<Rightarrow>
                   if from = [] then Continue (warn (MissingSourceCurrency (currencyPath f)) st)
                   else if \<not> isValidCurrencyCode (JStr from) (allowedCurrencyCodes opts) then
                     Continue (warn (InvalidSourceCurrency from) st)
                   else if \<not> isValidCurrencyCode (JStr (toCurrency f)) (allowedCurrencyCodes opts) then
                     Continue (warn (InvalidTargetCurrency (toCurrency f)) st)
                   else convertField h opts (\<lambda>s. rollbackFields (doc s) (fields' opts)) f amount from st
               | _ \<Rightarrow> Continue (warn (MissingSourceCurrency (currencyPath f)) st))))"

fun runFields :: "('w state \<Rightarrow> 'w step) list \<Rightarrow> 'w state \<Rightarrow> 'w outcome" where
  "runFields [] st = Resolved st"
| "runFields (body # rest) st =
     (case body st of
        Continue st' \<Rightarrow> runFields rest st'
      | Break st' \<Rightarrow> Resolved st'
      | Reject e st' \<Rightarrow> Rejected e st'
      | Leave \<Rightarrow> OutsideModel)"

definition initial :: "jsval \<Rightarrow> 'w \<Rightarrow> 'w state" where
  "initial d w = \<lparr>doc = d, world = w, events = [], convertedFields = []\<rparr>"

definition applyCurrencyConversion :: "'w host \<Rightarrow> 'w options \<Rightarrow> jsval \<Rightarrow> 'w \<Rightarrow> 'w outcome" where
  "applyCurrencyConversion h opts d w =
     runFields (map (processField h opts) (fields' opts)) (initial d w)"

text \<open>
  The second copy of the plugin (\<open>part_000\<close>) has neither check on the target path,
  skips without a warning when the amount or the source currency is missing, and rolls
  back the paths in \<open>convertedFields\<close>.
\<close>

definition processField_part000 :: "'w host \<Rightarrow> 'w options \<Rightarrow> field_config \<Rightarrow> 'w state \<Rightarrow> 'w step" where
  "processField_part000 h opts f st =
     (let amount = getNestedValue (doc st) (Dotted (sourcePath f))
      in case getNestedValue (doc st) (Dotted (currencyPath f)) of
           JStr from \<Rightarrow>
             if from = [] then Continue st
             else if amount = JForeign then Leave
             else if amount = JUndefined \<or> amount = JNull then Continue st
             else if \<not> isValidCurrencyCode (JStr from) (allowedCurrencyCodes opts) then
               Continue (warn (InvalidSourceCurrency from) st)
             else if \<not> isValidCurrencyCode (JStr (toCurrency f)) (allowedCurrencyCodes opts) then
               Continue (warn (InvalidTargetCurrency (toCurrency f)) st)
             else convertField h opts (\<lambda>s. rollbackConverted (doc s) (convertedFields s)) f amount from st
         | _ \<Rightarrow> Continue st)"

definition applyCurrencyConversion_part000 ::
  "'w host \<Rightarrow> 'w options \<Rightarrow> jsval \<Rightarrow> 'w \<Rightarrow> 'w outcome" where
  "applyCurrencyConversion_part000 h opts d w =
     runFields (map (processField_part000 h opts) (fields' opts)) (initial d w)"

section \<open>The rounding of the specification\<close>

text \<open>
  The rounding as the specification words it, on exact values, to compare
  \<open>defaultRound\<close> with: to two decimal places, a tie going up.
\<close>

definition specHalfUp :: "rat \<Rightarrow> rat" where
  "specHalfUp x = of_int \<lfloor>x * 100 + 1 / 2\<rfloor> / 100"

section \<open>Example configurations\<close>

text \<open>
  A host whose schema declares every path and whose clock stands at the epoch; it parses
  no date string. Resolvers that return a fixed value or reject; a field mapping with no
  date path; options with the defaults; the default cache as the plugin's cache, read at
  a fixed \<open>Date.now()\<close>.
\<close>

definition exampleHost :: "'w host" where
  "exampleHost = \<lparr>schemaPath = (\<lambda>p. True), clock = (\<lambda>w. Fin 0), parseDate = (\<lambda>s. NaN),
                   isoString = (\<lambda>t. ''1970-01-01T00:00:00.000Z'')\<rparr>"

definition constantRate :: "num option \<Rightarrow> 'w rate_fn" where
  "constantRate r from to conversionDate w = (Inr r, w)"

definition failingRate :: "string \<Rightarrow> 'w rate_fn" where
  "failingRate msg from to conversionDate w = (Inl (Thrown msg), w)"

definition fieldOf :: "string \<Rightarrow> string \<Rightarrow> string \<Rightarrow> string \<Rightarrow> field_config" where
  "fieldOf src cur tgt to = \<lparr>sourcePath = src, currencyPath = cur, datePath = None,
                              targetPath = tgt, toCurrency = to\<rparr>"

definition exampleOptions :: "field_config list \<Rightarrow> 'w rate_fn \<Rightarrow> 'w options" where
  "exampleOptions fs g =
     \<lparr>fields' = fs, getRate = g, roundFn = defaultRound, allowedCurrencyCodes = None,
      onError = None, fallbackRate = None, rollbackOnError = False,
      cache = None, dateTransform = None\<rparr>"

definition examplePluginOptions ::
  "field_config list dyn \<Rightarrow> unit rate_fn dyn \<Rightarrow> unit plugin_options" where
  "examplePluginOptions fs g =
     \<lparr>opt_fields = fs, opt_getRate = g, opt_round = None, opt_allowedCurrencyCodes = None,
      opt_onError = None, opt_fallbackRate = None, opt_rollbackOnError = False,
      opt_cache = None, opt_dateTransform = None\<rparr>"

text \<open>A callback that returns and one that throws.\<close>

definition returningCallback :: "'w error_callback" where
  "returningCallback ctx w = (None, w)"


definition simpleCacheOps :: "num \<Rightarrow> simple_cache rate_cache" where
  "simpleCacheOps now =
     \<lparr>cacheGet = (\<lambda>key c. case simple_get key now c of (r, c') \<Rightarrow> (Inr r, c')),
      cacheSet = (\<lambda>key v c. (Inr (), simple_set key v now c))\<rparr>"

definition priceDoc :: "jsval \<Rightarrow> jsval" where
  "priceDoc amount = JObj [(''price'', amount), (''currency'', JStr ''USD'')]"

text \<open>
  A resolver that counts its calls beside the default cache, and that cache as the
  plugin's cache in such a world.
\<close>

definition countingRate :: "num \<Rightarrow> (simple_cache \<times> int) rate_fn" where
  "countingRate r from to conversionDate w = (Inr (Some r), (fst w, snd w + 1))"

definition sharedCacheOps :: "num \<Rightarrow> (simple_cache \<times> int) rate_cache" where
  "sharedCacheOps now =
     \<lparr>cacheGet = (\<lambda>key w. case simple_get key now (fst w) of (r, c') \<Rightarrow> (Inr r, (c', snd w))),
      cacheSet = (\<lambda>key v w. (Inr (), (simple_set key v now (fst w), snd w)))\<rparr>"

section \<open>The package's tests, on the model\<close>

text \<open>
  The cases of \<open>helpers.spec.ts\<close>, \<open>cache.spec.ts\<close> and \<open>plugin.spec.ts\<close> that do not
  depend on the database, evaluated on the definitions above.
\<close>

lemma test_getPathArray:
  "getPathArray ''a.b.c'' = [''a'', ''b'', ''c'']"
  "getPathArray '''' = ['''']"
  by code_simp+

lemma test_getNestedValue:
  "getNestedValue (JObj [(''a'', JObj [(''b'', JObj [(''c'', JNum (Fin 42))])])]) (Dotted ''a.b.c'')
     = JNum (Fin 42)"
  "getNestedValue (JObj [(''a'', JObj [(''b'', JObj [(''c'', JNum (Fin 42))])])]) (Dotted ''a.b.x'')
     = JUndefined"
  "getNestedValue (JObj [(''a'', JNum (Fin 1))]) (Dotted ''a'') = JNum (Fin 1)"
  "getNestedValue (JNum (Fin 42)) (Dotted ''a'') = JUndefined"
  "getNestedValue JNull (Dotted ''a.b'') = JUndefined"
  "getNestedValue JUndefined (Dotted ''a.b'') = JUndefined"
  "getNestedValue (JObj [(''a'', JNum (Fin 1))]) (Dotted '''') = JUndefined"
  "getNestedValue (JObj [(''a'', JObj [(''b'', JObj [(''c'', JNum (Fin 42))])])])
     (Segments [''a'', ''b'', ''c'']) = JNum (Fin 42)"
  by code_simp+

lemma test_setNestedValue:
  "setNestedValue (JObj []) (Dotted '''') (JNum (Fin 123)) = Inr (JObj [])"
  "setNestedValue (JObj []) (Dotted ''.'') (JNum (Fin 123)) = Inr (JObj [])"
  "setNestedValue (JObj []) (Dotted ''a.b.c'') (JNum (Fin 99))
     = Inr (JObj [(''a'', JObj [(''b'', JObj [(''c'', JNum (Fin 99))])])])"
  "setNestedValue (JObj []) (Dotted ''x'') (JNum (Fin 5)) = Inr (JObj [(''x'', JNum (Fin 5))])"
  "setNestedValue (JObj [(''a'', JObj [(''b'', JObj [(''c'', JNum (Fin 1))])])]) (Dotted ''a.b.c'')
     (JNum (Fin 2)) = Inr (JObj [(''a'', JObj [(''b'', JObj [(''c'', JNum (Fin 2))])])])"
  by code_simp+

lemma test_isValidCurrencyCode:
  "isValidCurrencyCode (JStr ''USD'') None"
  "isValidCurrencyCode (JStr ''eur'') None"
  "isValidCurrencyCode (JStr ''XXX'') None"
  "\<not> isValidCurrencyCode (JStr ''FAKE'') None"
  "isValidCurrencyCode (JStr ''usd'') None"
  "\<not> isValidCurrencyCode (JStr ''fake'') None"
  "isValidCurrencyCode (JStr ''USD'') (Some [''USD'', ''EUR''])"
  "isValidCurrencyCode (JStr ''EUR'') (Some [''USD'', ''EUR''])"
  "\<not> isValidCurrencyCode (JStr ''GBP'') (Some [''USD'', ''EUR''])"
  "\<not> isValidCurrencyCode (JStr ''USD'') (Some [])"
  "\<not> isValidCurrencyCode (JStr ''FAKE'') (Some [''USD'', ''EUR''])"
  "\<not> isValidCurrencyCode JUndefined None"
  "\<not> isValidCurrencyCode JNull None"
  "\<not> isValidCurrencyCode (JNum (Fin 123)) None"
  "\<not> isValidCurrencyCode (JBool False) None"
  "\<not> isValidCurrencyCode (JArr []) None"
  "\<not> isValidCurrencyCode (JObj []) None"
  by code_simp+

text \<open>
  Beyond ASCII: the sharp s upper-cases to \<open>SS\<close>, so it does not match itself; the
  e with acute (233) matches its capital (201).
\<close>

lemma test_isValidCurrencyCode_latin1:
  "\<not> isValidCurrencyCode (JStr [CHR 0xDF]) (Some [[CHR 0xDF]])"
  "isValidCurrencyCode (JStr [CHR 0xDF]) (Some [''SS''])"
  "isValidCurrencyCode (JStr [CHR 0xE9]) (Some [[CHR 0xC9]])"
  "\<not> isValidCurrencyCode (JStr [CHR 0xC9]) (Some [[CHR 0xE9]])"
  by code_simp+

lemma test_toNumber:
  "toNumber (JStr ''abc'') = Inr NaN"
  "toNumber (JStr '' 12.5 '') = Inr (rnd (125 / 10))"
  "toNumber (JObj []) = Inr NaN"
  "toNumber (JObj [(''toString'', JNum (Fin 1))]) = Inl TypeError"
  "toNumber (JObj [(''valueOf'', JNum (Fin 1))]) = Inr NaN"
  "toNumber (JArr []) = Inr (Fin 0)"
  "toNumber (JArr [JStr ''7'']) = Inr (Fin 7)"
  "toNumber (JArr [JArr [JNum (Fin 7)]]) = Inr (Fin 7)"
  "toNumber (JArr [JNum (Fin 1), JNum (Fin 2)]) = Inr NaN"
  "toNumber (JArr [JNull, JObj [(''toString'', JNull)]]) = Inl TypeError"
  by code_simp+

lemma test_inherited_names:
  "getNestedValue (JObj []) (Dotted ''toString'') = JForeign"
  "getNestedValue (JObj [(''toString'', JNum (Fin 1))]) (Dotted ''toString'') = JNum (Fin 1)"
  "getNestedValue (JObj [(''a'', JArr [JNull])]) (Dotted ''a.length'') = JNum (Fin 1)"
  "getNestedValue (JObj [(''a'', JArr [JNull])]) (Dotted ''a.1'') = JUndefined"
  "setNestedValue (JObj []) (Dotted ''__proto__.x'') (JNum (Fin 1)) = Inl Unmodelled"
  "setNestedValue (JObj []) (Dotted ''__proto__'') (JNum (Fin 1)) = Inl Unmodelled"
  by code_simp+

lemma test_SimpleCache:
  "fst (simple_get ''a'' (Fin 0) (simple_set ''a'' (Fin 123) (Fin 0) (SimpleCache (Fin 1))))
     = Some (Fin 123)"
  "fst (simple_get ''missing'' (Fin 0) (SimpleCache (Fin 1))) = None"
  "fst (simple_get ''x'' (Fin 70) (simple_set ''x'' (Fin 99) (Fin 0) (SimpleCache (rnd (1 / 1000)))))
     = None"
  "fst (simple_get ''a'' (Fin 0)
          (simple_delete ''a'' (simple_set ''a'' (Fin 1) (Fin 0) (SimpleCache (Fin 1))))) = None"
  "fst (simple_get ''b'' (Fin 0)
          (simple_clear (simple_set ''b'' (Fin 2) (Fin 0)
             (simple_set ''a'' (Fin 1) (Fin 0) (SimpleCache (Fin 1)))))) = None"
  by code_simp+

lemma test_convert_simple_field:
  "applyCurrencyConversion exampleHost
     (exampleOptions [fieldOf ''price.amount'' ''price.currency'' ''priceConversion'' ''EUR'']
        (constantRate (Some (rnd (85 / 100)))))
     (JObj [(''price'', JObj [(''amount'', JNum (Fin 100)), (''currency'', JStr ''USD'')])]) () =
   Resolved \<lparr>doc = JObj [(''price'', JObj [(''amount'', JNum (Fin 100)), (''currency'', JStr ''USD'')]),
                         (''priceConversion'',
                          JObj [(''amount'', JNum (Fin 85)), (''currency'', JStr ''EUR''),
                                (''date'', JDate (Fin 0))])],
             world = (), events = [], convertedFields = [''priceConversion'']\<rparr>"
  by code_simp

lemma test_skip_when_missing:
  "applyCurrencyConversion exampleHost
     (exampleOptions [fieldOf ''price'' ''currency'' ''conv'' ''EUR''] (constantRate (Some (Fin 2))))
     (JObj [(''currency'', JStr ''USD'')]) () =
   Resolved (initial (JObj [(''currency'', JStr ''USD'')]) ())"
  by code_simp

lemma test_invalid_rate:
  "applyCurrencyConversion exampleHost
     (exampleOptions [fieldOf ''price'' ''currency'' ''conv'' ''EUR''] (constantRate (Some NaN)))
     (priceDoc (JNum (Fin 10))) () =
   Resolved ((initial (priceDoc (JNum (Fin 10))) ())
               \<lparr>events := [ErrorLogged ''price'' InvalidRate]\<rparr>)"
  by code_simp

lemma test_onError_callback:
  "applyCurrencyConversion exampleHost
     ((exampleOptions [fieldOf ''price'' ''currency'' ''result'' ''EUR''] (failingRate ''rate error''))
        \<lparr>onError := Some returningCallback\<rparr>)
     (priceDoc (JNum (Fin 10))) () =
   Resolved ((initial (priceDoc (JNum (Fin 10))) ())
               \<lparr>events := [ErrorCallback \<lparr>ctxField = ''price'', ctxFromCurrency = ''USD'',
                                           ctxToCurrency = ''EUR'', ctxDate = Fin 0,
                                           ctxError = Thrown ''rate error''\<rparr>]\<rparr>)"
  by code_simp

lemma test_rollback:
  "applyCurrencyConversion exampleHost
     ((exampleOptions [fieldOf ''price'' ''currency'' ''result'' ''EUR'',
                       fieldOf ''price'' ''currency'' ''result2'' ''GBP'']
         (\<lambda>from to cd w. if to = ''GBP'' then (Inl (Thrown ''fail GBP''), w)
                          else (Inr (Some (Fin 2)), w)))
        \<lparr>rollbackOnError := True\<rparr>)
     (priceDoc (JNum (Fin 10))) () =
   Resolved \<lparr>doc = JObj [(''price'', JNum (Fin 10)), (''currency'', JStr ''USD''),
                         (''result'', JUndefined), (''result2'', JUndefined)],
             world = (), events = [ErrorLogged ''price'' (Thrown ''fail GBP'')],
             convertedFields = [''result'']\<rparr>"
  by code_simp

lemma test_invalid_source_currency:
  "applyCurrencyConversion exampleHost
     ((exampleOptions [fieldOf ''price'' ''currency'' ''result'' ''EUR''] (constantRate (Some (Fin 1))))
        \<lparr>allowedCurrencyCodes := Some [''EUR'']\<rparr>)
     (priceDoc (JNum (Fin 10))) () =
   Resolved ((initial (priceDoc (JNum (Fin 10))) ())
               \<lparr>events := [Warned (InvalidSourceCurrency ''USD'')]\<rparr>)"
  by code_simp

lemma test_cache_hit_suppresses_resolver:
  "(case applyCurrencyConversion exampleHost
           ((exampleOptions [fieldOf ''price'' ''currency'' ''result'' ''EUR''] (countingRate (Fin 3)))
              \<lparr>cache := Some (sharedCacheOps (Fin 0))\<rparr>)
           (priceDoc (JNum (Fin 10))) (SimpleCache (Fin 60), 0) of
      Resolved s \<Rightarrow>
        (case applyCurrencyConversion exampleHost
                ((exampleOptions [fieldOf ''price'' ''currency'' ''result'' ''EUR'']
                    (countingRate (Fin 3)))
                   \<lparr>cache := Some (sharedCacheOps (Fin 0))\<rparr>)
                (priceDoc (JNum (Fin 20))) (world s) of
           Resolved s' \<Rightarrow> Some (snd (world s'), getNestedValue (doc s') (Dotted ''result.amount''))
         | _ \<Rightarrow> None)
    | _ \<Rightarrow> None) = Some (1, JNum (Fin 60))"
  by code_simp

section \<open>Rounding\<close>

lemma round_1234: "defaultRound (rnd (1234 / 1000)) = rnd (123 / 100)"
  by code_simp

lemma round_1235: "defaultRound (rnd (1235 / 1000)) = rnd (124 / 100)"
  by code_simp

lemma round_neg_2567: "defaultRound (rnd (- 2567 / 1000)) = rnd (- 257 / 100)"
  by code_simp

lemma round_5: "defaultRound (rnd 5) = rnd 5"
  by code_simp

lemma round_tie: "defaultRound (rnd (125 / 1000)) = rnd (13 / 100)"
  by code_simp

lemma round_negative_tie: "defaultRound (rnd (- 125 / 1000)) = rnd (- 12 / 100)"
  by code_simp

lemma round_1005: "defaultRound (rnd (1005 / 1000)) = rnd 1"
  by code_simp

lemma round_2675: "defaultRound (rnd (2675 / 1000)) = rnd (268 / 100)"
  by code_simp

lemma rnd_2675: "rnd (2675 / 1000) = Fin (3011782250804019 / 1125899906842624)"
  by code_simp

lemma rnd_distinct:
  "rnd (268 / 100) \<noteq> rnd (267 / 100)"
  "rnd 1 \<noteq> rnd (101 / 100)"
  by code_simp+

lemma specHalfUp_values:
  "specHalfUp (3011782250804019 / 1125899906842624) = 267 / 100"
  "specHalfUp (1005 / 1000) = 101 / 100"
  by code_simp+

text \<open>
  Claim C4, as stated: the default rounding function rounds to two decimal places, half
  up. It does so neither for the number a literal denotes nor for the binary64 value the
  function receives. The literal \<open>1.005\<close> rounds half up to \<open>1.01\<close>, and the function
  returns \<open>1\<close>. The binary64 value of \<open>2.675\<close> lies below \<open>2.675\<close> and rounds half up
  to \<open>2.67\<close>, and the function returns \<open>2.68\<close>.
\<close>

theorem defaultRound_not_half_up:
  "specHalfUp (1005 / 1000) = 101 / 100 \<and>
   defaultRound (rnd (1005 / 1000)) = rnd 1 \<and>
   rnd 1 \<noteq> rnd (101 / 100) \<and>
   rnd (2675 / 1000) = Fin (3011782250804019 / 1125899906842624) \<and>
   specHalfUp (3011782250804019 / 1125899906842624) = 267 / 100 \<and>
   defaultRound (Fin (3011782250804019 / 1125899906842624)) = rnd (268 / 100) \<and>
   rnd (268 / 100) \<noteq> rnd (267 / 100)"
  using specHalfUp_values round_1005 rnd_distinct rnd_2675 round_2675 by simp

text \<open>
  The integer \<open>Math.round\<close> picks is the nearest one, the upper one at a tie.
\<close>

lemma Math_round_nearest:
  "\<exists>n. Math_round (Fin q) = Fin (of_int n) \<and> q - 1 / 2 < of_int n \<and> of_int n \<le> q + 1 / 2"
proof -
  have "q - 1 / 2 < of_int \<lfloor>q + 1 / 2\<rfloor>" by linarith
  moreover have "of_int \<lfloor>q + 1 / 2\<rfloor> \<le> q + 1 / 2" by linarith
  ultimately show ?thesis by auto
qed

text \<open>
  Claim C4, amended: the default rounding function returns the hundredth part, as a
  binary64 value, of the integer nearest to the binary64 product of its argument and
  100, the upper integer at a tie; an infinite product and \<open>NaN\<close> are returned as they
  are. On the binary64 values of the literals, \<open>round(1.234) = 1.23\<close>,
  \<open>round(1.235) = 1.24\<close>, \<open>round(-2.567) = -2.57\<close> and \<open>round(5) = 5\<close>; the ties
  \<open>0.125\<close> and \<open>-0.125\<close> go up, to \<open>0.13\<close> and \<open>-0.12\<close>.
\<close>

theorem defaultRound_nearest_to_product:
  "(fmul v (Fin 100) = Fin p \<longrightarrow>
      (\<exists>n. defaultRound v = rnd (of_int n / 100) \<and>
            p - 1 / 2 < of_int n \<and> of_int n \<le> p + 1 / 2)) \<and>
   (\<not> isFinite (fmul v (Fin 100)) \<longrightarrow> defaultRound v = fmul v (Fin 100)) \<and>
   defaultRound (rnd (1234 / 1000)) = rnd (123 / 100) \<and>
   defaultRound (rnd (1235 / 1000)) = rnd (124 / 100) \<and>
   defaultRound (rnd (- 2567 / 1000)) = rnd (- 257 / 100) \<and>
   defaultRound (rnd 5) = rnd 5 \<and>
   defaultRound (rnd (125 / 1000)) = rnd (13 / 100) \<and>
   defaultRound (rnd (- 125 / 1000)) = rnd (- 12 / 100)"
proof -
  have a: "\<exists>n. defaultRound v = rnd (of_int n / 100) \<and>
             p - 1 / 2 < of_int n \<and> of_int n \<le> p + 1 / 2"
    if "fmul v (Fin 100) = Fin p"
  proof -
    from Math_round_nearest [of p] obtain n where
      n: "Math_round (Fin p) = Fin (of_int n)" "p - 1 / 2 < of_int n" "of_int n \<le> p + 1 / 2"
      by blast
    from that n(1) have "defaultRound v = rnd (of_int n / 100)"
      by (simp add: defaultRound_def)
    with n(2,3) show ?thesis by blast
  qed
  have b: "defaultRound v = fmul v (Fin 100)" if "\<not> isFinite (fmul v (Fin 100))"
    using that by (cases "fmul v (Fin 100)") (simp_all add: defaultRound_def)
  from a b round_1234 round_1235 round_neg_2567 round_5 round_tie round_negative_tie
  show ?thesis by blast
qed

text \<open>
  C4 as amended, at the binary64 value of \<open>1.235\<close>: the product with 100 is a value
  just above \<open>123.5\<close>, and the integer is 124.
\<close>

theorem defaultRound_nearest_to_product_witness:
  "fmul (Fin (5561945539802563 / 4503599627370496)) (Fin 100)
     = Fin (8690539905941505 / 70368744177664) \<and>
   (\<exists>n. defaultRound (Fin (5561945539802563 / 4503599627370496)) = rnd (of_int n / 100) \<and>
         8690539905941505 / 70368744177664 - 1 / 2 < (of_int n :: rat) \<and>
         (of_int n :: rat) \<le> 8690539905941505 / 70368744177664 + 1 / 2) \<and>
   \<not> isFinite (fmul PInf (Fin 100)) \<and> defaultRound PInf = fmul PInf (Fin 100)"
proof -
  have p: "fmul (Fin (5561945539802563 / 4503599627370496)) (Fin 100)
     = Fin (8690539905941505 / 70368744177664)"
    by code_simp
  have i: "\<not> isFinite (fmul PInf (Fin 100))"
    by simp
  from p i
    defaultRound_nearest_to_product
      [where v = "Fin (5561945539802563 / 4503599627370496)"
         and p = "8690539905941505 / 70368744177664"]
    defaultRound_nearest_to_product [where v = PInf]
  show ?thesis by blast
qed

section \<open>The validator\<close>

text \<open>
  Claim C3, as stated: the validator is true exactly when some element of the allow-list
  equals the code up to letter case. It fails for the code \<open>usd\<close> and the allow-list
  \<open>["usd"]\<close>: the element equals the code, and the validator answers false, because
  only the code is upper-cased.
\<close>

theorem isValidCurrencyCode_lowercase_entry:
  "''usd'' \<in> set [''usd''] \<and> toUpperCase ''usd'' = toUpperCase ''usd'' \<and>
   \<not> isValidCurrencyCode (JStr ''usd'') (Some [''usd''])"
  by code_simp

text \<open>
  Claim C3, amended: with an allow-list, the validator is true exactly when the code is
  a string whose upper-cased form is, code unit by code unit, an element of the
  allow-list as the caller wrote it. The test ignores the case of the code only.
\<close>

theorem isValidCurrencyCode_allow_list:
  "isValidCurrencyCode code (Some l) =
     (\<exists>s. code = JStr s \<and> toUpperCase s \<in> set (map codeUnits l))"
  by (cases code) (simp_all add: isValidCurrencyCode_def)

text \<open>
  Claim C6. An empty allow-list makes the validator false for every code; with no
  allow-list the validator tests against the built-in ISO 4217 codes, where \<open>USD\<close> is
  valid.
\<close>

theorem isValidCurrencyCode_empty_allow_list:
  "isValidCurrencyCode code (Some []) = False \<and>
   isValidCurrencyCode code None = isValidCurrencyCode code (Some ISO_4217_CODES) \<and>
   isValidCurrencyCode (JStr ''USD'') None = True"
proof -
  have a: "isValidCurrencyCode code (Some []) = False"
    by (cases code) (simp_all add: isValidCurrencyCode_def)
  have b: "isValidCurrencyCode code None = isValidCurrencyCode code (Some ISO_4217_CODES)"
    by (simp add: isValidCurrencyCode_def)
  have c: "isValidCurrencyCode (JStr ''USD'') None = True"
    by code_simp
  from a b c show ?thesis by blast
qed

section \<open>Reading back what was written\<close>

lemma elemRead_elemWrite: "elemRead (elemWrite xs i v) i = v"
  by (simp add: elemRead_def elemWrite_def nth_append)

lemma getStep_arr:
  "\<not> isNaN (stringToNumber key) \<Longrightarrow> arrayIndex (stringToNumber key) = Some i \<Longrightarrow>
   getStep (JArr (elemWrite xs i c)) key = c"
  by (simp add: getStep_def readNumber_def elemRead_elemWrite)

lemma getStep_obj: "getStep (JObj (AList.update key c ps)) key = c"
  by (simp add: getStep_def update_conv')

lemma assignLast_get: "assignLast t l v = Inr t' \<Longrightarrow> getStep t' l = v"
  by (cases t) (auto simp: getStep_arr getStep_obj split: if_splits option.splits)

lemma setWalk_get: "setWalk t parts l v = Inr t' \<Longrightarrow> foldl getStep t' (parts @ [l]) = v"
proof (induction parts arbitrary: t t')
  case Nil
  then show ?case by (simp add: assignLast_get)
next
  case (Cons key parts)
  show ?case
  proof (cases t)
    case (JArr xs)
    with Cons.prems obtain i c where
      n: "\<not> isNaN (stringToNumber key)" and i: "arrayIndex (stringToNumber key) = Some i" and
      c: "setWalk (if \<not> truthy (elemRead xs i) then JObj [] else elemRead xs i) parts l v = Inr c" and
      t': "t' = JArr (elemWrite xs i c)"
      by (auto split: if_splits option.splits sum.splits)
    from Cons.IH[OF c] n i t' show ?thesis by (simp add: getStep_arr)
  next
    case (JObj ps)
    with Cons.prems obtain c where
      c: "setWalk (if \<not> isObject (readKey (JObj ps) key) then JObj [] else readKey (JObj ps) key)
            parts l v = Inr c" and
      t': "t' = JObj (AList.update key c ps)"
      by (auto split: if_splits sum.splits)
    from Cons.IH[OF c] t' show ?thesis by (simp add: getStep_obj)
  qed (use Cons.prems in auto)
qed

text \<open>
  Whenever a write returns, and the path ends in a segment that is not empty, reading the
  path gives the value written, at any depth and through arrays.
\<close>

lemma set_then_get:
  assumes "setNestedValue obj p v = Inr obj'" and "pathKeys p \<noteq> []" and "last (pathKeys p) \<noteq> []"
  shows "getNestedValue obj' p = v"
proof -
  from assms have "setWalk obj (butlast (pathKeys p)) (last (pathKeys p)) v = Inr obj'"
    by (simp add: setNestedValue_def Let_def)
  then have "foldl getStep obj' (butlast (pathKeys p) @ [last (pathKeys p)]) = v"
    by (rule setWalk_get)
  with assms(2) show ?thesis by (simp add: getNestedValue_def)
qed




text \<open>
  Claim C7 says that a write followed by a read of the same path returns the value, also
  through arrays. In the record \<open>{a: [5]}\<close> the write of \<open>1\<close> at \<open>a.0.b\<close> raises a
  \<open>TypeError\<close>: the array branch keeps the truthy element \<open>5\<close> and the next assignment
  is on a number. The read of \<open>a.0.b\<close> gives \<open>undefined\<close>. With the object \<open>{a: {0: 5}}\<close>
  in place of the array, the object branch replaces the \<open>5\<close> and the value is read back.
\<close>

theorem setNestedValue_through_array_element:
  "setNestedValue (JObj [(''a'', JArr [JNum (Fin 5)])]) (Dotted ''a.0.b'') (JNum (Fin 1))
     = Inl TypeError \<and>
   getNestedValue (JObj [(''a'', JArr [JNum (Fin 5)])]) (Dotted ''a.0.b'') = JUndefined \<and>
   setNestedValue (JObj [(''a'', JObj [(''0'', JNum (Fin 5))])]) (Dotted ''a.0.b'') (JNum (Fin 1))
     = Inr (JObj [(''a'', JObj [(''0'', JObj [(''b'', JNum (Fin 1))])])])"
  by code_simp

section \<open>The set-up\<close>

text \<open>
  Claim C9. The set-up fails with a configuration error, returned to the caller in place
  of a configuration, when \<open>fields\<close> is missing or no array, when it is the empty
  array, and when \<open>getRate\<close> is not a function; otherwise it succeeds with the fields
  and the resolver given. \<open>applyCurrencyConversion\<close> takes the configuration the set-up
  returns, so no record is processed before the checks.
\<close>

theorem setup_validation:
  "(opt_fields options = Other v \<longrightarrow>
      currencyConversionPlugin options = Inl FieldsNotNonEmptyArray) \<and>
   (opt_fields options = Given [] \<longrightarrow>
      currencyConversionPlugin options = Inl FieldsNotNonEmptyArray) \<and>
   (opt_fields options = Given (f # fs) \<and> opt_getRate options = Other v' \<longrightarrow>
      currencyConversionPlugin options = Inl GetRateNotFunction) \<and>
   (opt_fields options = Given (f # fs) \<and> opt_getRate options = Given g \<longrightarrow>
      (\<exists>opts. currencyConversionPlugin options = Inr opts \<and>
              fields' opts = f # fs \<and> getRate opts = g))"
  by (simp add: currencyConversionPlugin_def)

text \<open>
  The four cases of C9 on examples: \<open>fields\<close> undefined, \<open>fields\<close> empty, \<open>getRate\<close> a
  string, and a valid pair.
\<close>

theorem setup_validation_witness:
  "currencyConversionPlugin
     (examplePluginOptions (Other JUndefined) (Given (constantRate (Some (Fin 1)))))
     = Inl FieldsNotNonEmptyArray \<and>
   currencyConversionPlugin
     (examplePluginOptions (Given []) (Given (constantRate (Some (Fin 1)))))
     = Inl FieldsNotNonEmptyArray \<and>
   currencyConversionPlugin
     (examplePluginOptions (Given [fieldOf ''price'' ''currency'' ''result'' ''EUR''])
        (Other (JStr ''rate'')))
     = Inl GetRateNotFunction \<and>
   (\<exists>opts. currencyConversionPlugin
             (examplePluginOptions (Given [fieldOf ''price'' ''currency'' ''result'' ''EUR''])
                (Given (constantRate (Some (Fin 1)))))
              = Inr opts \<and>
           fields' opts = [fieldOf ''price'' ''currency'' ''result'' ''EUR''] \<and>
           getRate opts = constantRate (Some (Fin 1)))"
  using
    setup_validation [where options = "examplePluginOptions (Other JUndefined)
       (Given (constantRate (Some (Fin 1))))" and v = JUndefined]
    setup_validation [where options = "examplePluginOptions (Given [])
       (Given (constantRate (Some (Fin 1))))"]
    setup_validation [where options = "examplePluginOptions
       (Given [fieldOf ''price'' ''currency'' ''result'' ''EUR'']) (Other (JStr ''rate''))"
       and f = "fieldOf ''price'' ''currency'' ''result'' ''EUR''" and fs = "[]"
       and v' = "JStr ''rate''"]
    setup_validation [where options = "examplePluginOptions
       (Given [fieldOf ''price'' ''currency'' ''result'' ''EUR''])
       (Given (constantRate (Some (Fin 1))))"
       and f = "fieldOf ''price'' ''currency'' ''result'' ''EUR''" and fs = "[]"
       and g = "constantRate (Some (Fin 1))"]
  by (simp add: examplePluginOptions_def)

section \<open>The rate of a field\<close>



text \<open>
  Claim C5, as stated: after a miss the cache receives the resolver's result exactly when
  it is finite, not zero and not \<open>NaN\<close>, and a result that is not finite is never
  written. With the default cache and a resolver that returns \<open>Infinity\<close>, the infinity
  is stored.
\<close>

theorem infinite_rate_is_cached:
  "resolveRate ((exampleOptions [] (constantRate (Some PInf)))
                  \<lparr>cache := Some (simpleCacheOps (Fin 0))\<rparr>)
     ''USD'' ''EUR'' (Fin 0) ''USD_EUR_1970-01-01'' (SimpleCache (Fin 60)) =
   (Inr (Some PInf),
    \<lparr>store = [(''USD_EUR_1970-01-01'', \<lparr>entryValue = PInf, expiresAt = Fin 3600000\<rparr>)],
     ttl = Fin 3600000\<rparr>)"
  by code_simp

text \<open>
  Claim C5, amended: after a miss of a configured cache, a result of the resolver that is
  a number other than zero and \<open>NaN\<close>, the infinities among them, is handed to the
  cache's \<open>set\<close>; a result that is \<open>undefined\<close> or \<open>NaN\<close> is not, and the cache stays
  as the resolver left it.
\<close>

theorem cache_written_unless_undefined_or_NaN:
  "cache opts = Some c \<and> cacheGet c key w = (Inr None, wa) \<and>
   getRate opts from to cd wa = (Inr rate, wb)
   \<longrightarrow> (case rate of
           None \<Rightarrow> snd (resolveRate opts from to cd key w) = wb
         | Some r \<Rightarrow>
             (r = NaN \<longrightarrow> snd (resolveRate opts from to cd key w) = wb) \<and>
             (r \<noteq> Fin 0 \<and> r \<noteq> NaN \<longrightarrow>
                snd (resolveRate opts from to cd key w) = snd (cacheSet c key r wb)))"
  by (cases rate; cases "the rate")
     (auto simp: resolveRate_def split: option.splits prod.splits sum.splits)

text \<open>
  C5 as amended, on the default cache: a resolver's rate of 2 is stored under the key, a
  resolver's \<open>NaN\<close> leaves the store empty.
\<close>

theorem cache_written_unless_undefined_or_NaN_witness:
  "snd (resolveRate ((exampleOptions [] (constantRate (Some (Fin 2))))
                       \<lparr>cache := Some (simpleCacheOps (Fin 0))\<rparr>)
          ''USD'' ''EUR'' (Fin 0) ''USD_EUR_1970-01-01'' (SimpleCache (Fin 60))) =
     \<lparr>store = [(''USD_EUR_1970-01-01'', \<lparr>entryValue = Fin 2, expiresAt = Fin 3600000\<rparr>)],
      ttl = Fin 3600000\<rparr> \<and>
   snd (resolveRate ((exampleOptions [] (constantRate (Some NaN)))
                       \<lparr>cache := Some (simpleCacheOps (Fin 0))\<rparr>)
          ''USD'' ''EUR'' (Fin 0) ''USD_EUR_1970-01-01'' (SimpleCache (Fin 60))) =
     \<lparr>store = [], ttl = Fin 3600000\<rparr>"
proof -
  let ?o = "\<lambda>r. (exampleOptions [] (constantRate r))\<lparr>cache := Some (simpleCacheOps (Fin 0))\<rparr>"
  let ?k = "''USD_EUR_1970-01-01''"
  let ?c = "SimpleCache (Fin 60)"
  have a: "cache (?o r) = Some (simpleCacheOps (Fin 0)) \<and>
     cacheGet (simpleCacheOps (Fin 0)) ?k ?c = (Inr None, ?c) \<and>
     getRate (?o r) ''USD'' ''EUR'' (Fin 0) ?c = (Inr r, ?c)" for r
    by (simp add: exampleOptions_def constantRate_def simpleCacheOps_def simple_get_def
          SimpleCache_def)
  from a [of "Some (Fin 2)"] cache_written_unless_undefined_or_NaN
         [where opts = "?o (Some (Fin 2))" and c = "simpleCacheOps (Fin 0)" and key = ?k
            and w = ?c and wa = ?c and rate = "Some (Fin 2)"
            and wb = ?c and ?from = "''USD''" and to = "''EUR''" and cd = "Fin 0"]
  have "snd (resolveRate (?o (Some (Fin 2))) ''USD'' ''EUR'' (Fin 0) ?k ?c) =
      snd (cacheSet (simpleCacheOps (Fin 0)) ?k (Fin 2) ?c)"
    by simp
  also have "\<dots> = \<lparr>store = [(?k, \<lparr>entryValue = Fin 2, expiresAt = Fin 3600000\<rparr>)],
                    ttl = Fin 3600000\<rparr>"
    by code_simp
  finally have 1: "snd (resolveRate (?o (Some (Fin 2))) ''USD'' ''EUR'' (Fin 0) ?k ?c) =
      \<lparr>store = [(?k, \<lparr>entryValue = Fin 2, expiresAt = Fin 3600000\<rparr>)], ttl = Fin 3600000\<rparr>" .
  from a [of "Some NaN"] cache_written_unless_undefined_or_NaN
         [where opts = "?o (Some NaN)" and c = "simpleCacheOps (Fin 0)" and key = ?k
            and w = ?c and wa = ?c and rate = "Some NaN"
            and wb = ?c and ?from = "''USD''" and to = "''EUR''" and cd = "Fin 0"]
  have "snd (resolveRate (?o (Some NaN)) ''USD'' ''EUR'' (Fin 0) ?k ?c) = ?c"
    by simp
  also have "\<dots> = \<lparr>store = [], ttl = Fin 3600000\<rparr>"
    by code_simp
  finally have 2: "snd (resolveRate (?o (Some NaN)) ''USD'' ''EUR'' (Fin 0) ?k ?c) =
      \<lparr>store = [], ttl = Fin 3600000\<rparr>" .
  from 1 2 show ?thesis by blast
qed

text \<open>
  The guard in front of the cache's \<open>set\<close> tests \<open>undefined\<close> and \<open>NaN\<close> only, so a
  resolver's zero is stored as well, although the statement after it treats zero as no
  rate.
\<close>

lemma zero_rate_is_cached:
  "resolveRate ((exampleOptions [] (constantRate (Some (Fin 0))))
                  \<lparr>cache := Some (simpleCacheOps (Fin 0))\<rparr>)
     ''USD'' ''EUR'' (Fin 0) ''USD_EUR_1970-01-01'' (SimpleCache (Fin 60)) =
   (Inr (Some (Fin 0)),
    \<lparr>store = [(''USD_EUR_1970-01-01'', \<lparr>entryValue = Fin 0, expiresAt = Fin 3600000\<rparr>)],
     ttl = Fin 3600000\<rparr>)"
  by code_simp

section \<open>Failures of a conversion\<close>


lemma report_frame:
  "report opts f from cd err st = (r, sr) \<Longrightarrow>
   doc sr = doc st \<and> convertedFields sr = convertedFields st"
  by (auto simp: report_def Let_def split: option.splits prod.splits)












section \<open>Amounts that are no numbers\<close>




section \<open>Rollback\<close>

text \<open>
  The rollback of the second copy goes over \<open>convertedFields\<close>, which a step extends by
  its target exactly when its \<open>try\<close> block ends without an error. In a document that is
  an object, such a rollback leaves every path as it was whose first segment is not the
  first segment of a written target.
\<close>

lemma getPathArray_not_Nil: "getPathArray s \<noteq> []"
  by (induction s) auto

lemma setWalk_object_frame:
  assumes "setWalk (JObj ps) parts l v = Inr d'" and "hd (parts @ [l]) \<noteq> k"
  shows "\<exists>ps'. d' = JObj ps' \<and> map_of ps' k = map_of ps k"
proof (cases parts)
  case Nil
  with assms show ?thesis by (auto simp: update_conv' split: if_splits)
next
  case (Cons key rest)
  with assms show ?thesis by (auto simp: update_conv' split: if_splits sum.splits)
qed

lemma setNestedValue_object_frame:
  assumes "setNestedValue (JObj ps) (Dotted p) v = Inr d'"
    and "hd (getPathArray p) \<noteq> hd (getPathArray q)"
  shows "\<exists>ps'. d' = JObj ps' \<and>
           getNestedValue d' (Dotted q) = getNestedValue (JObj ps) (Dotted q)"
proof -
  obtain k rest where q: "getPathArray q = k # rest"
    using getPathArray_not_Nil by (cases "getPathArray q") auto
  have "\<exists>ps'. d' = JObj ps' \<and> map_of ps' k = map_of ps k"
  proof (cases "last (getPathArray p) = []")
    case True
    with assms(1) show ?thesis by (auto simp: setNestedValue_def Let_def)
  next
    case False
    with assms(1) have w: "setWalk (JObj ps) (butlast (getPathArray p)) (last (getPathArray p)) v = Inr d'"
      by (simp add: setNestedValue_def Let_def getPathArray_not_Nil)
    have "butlast (getPathArray p) @ [last (getPathArray p)] = getPathArray p"
      by (simp add: getPathArray_not_Nil)
    with assms(2) q have "hd (butlast (getPathArray p) @ [last (getPathArray p)]) \<noteq> k"
      by simp
    with w show ?thesis by (rule setWalk_object_frame)
  qed
  then obtain ps' where d': "d' = JObj ps'" and m: "map_of ps' k = map_of ps k" by blast
  from m have "getStep (JObj ps') k = getStep (JObj ps) k"
    by (simp add: getStep_def)
  with d' q show ?thesis by (simp add: getNestedValue_def)
qed

lemma rollbackConverted_frame:
  assumes "rollbackConverted (JObj ps) paths = (r, d')"
    and "\<forall>p \<in> set paths. hd (getPathArray p) \<noteq> hd (getPathArray q)"
  shows "getNestedValue d' (Dotted q) = getNestedValue (JObj ps) (Dotted q)"
  using assms
proof (induction paths arbitrary: ps)
  case Nil
  then show ?case by simp
next
  case (Cons p paths)
  show ?case
  proof (cases "setNestedValue (JObj ps) (Dotted p) JUndefined")
    case (Inl e)
    with Cons.prems show ?thesis by simp
  next
    case (Inr d1)
    from Cons.prems(2) have "hd (getPathArray p) \<noteq> hd (getPathArray q)" by simp
    with Inr obtain ps1 where d1: "d1 = JObj ps1"
      and g: "getNestedValue d1 (Dotted q) = getNestedValue (JObj ps) (Dotted q)"
      using setNestedValue_object_frame by blast
    from Cons.prems(1) Inr d1 have "rollbackConverted (JObj ps1) paths = (r, d')" by simp
    moreover from Cons.prems(2) have "\<forall>p \<in> set paths. hd (getPathArray p) \<noteq> hd (getPathArray q)"
      by simp
    ultimately have "getNestedValue d' (Dotted q) = getNestedValue (JObj ps1) (Dotted q)"
      by (rule Cons.IH)
    with g d1 show ?thesis by simp
  qed
qed

lemma part000_rollback_frame:
  assumes "catchBlock opts (\<lambda>s. rollbackConverted (doc s) (convertedFields s)) f from cd err st
             = Break st'"
    and "doc st = JObj ps"
    and "\<forall>p \<in> set (convertedFields st). hd (getPathArray p) \<noteq> hd (getPathArray q)"
  shows "getNestedValue (doc st') (Dotted q) = getNestedValue (doc st) (Dotted q)"
proof -
  from assms(1) obtain sr d' where
    p: "report opts f from cd err st = (None, sr)" and
    r: "rollbackConverted (doc sr) (convertedFields sr) = (None, d')" and d: "doc st' = d'"
    by (auto simp: catchBlock_def split: if_splits prod.splits option.splits exn.splits)
  from report_frame [OF p] r have
    "rollbackConverted (doc st) (convertedFields st) = (None, d')"
    by simp
  with assms(2,3) have "getNestedValue d' (Dotted q) = getNestedValue (JObj ps) (Dotted q)"
    using rollbackConverted_frame by simp
  with d assms(2) show ?thesis by simp
qed


lemma tryBlock_convertedFields:
  "tryBlock opts f amount from cd key st = (r, st') \<Longrightarrow>
   convertedFields st' =
     (if r = None then convertedFields st @ [targetPath f] else convertedFields st)"
  by (auto simp: tryBlock_def writeConverted_def split: prod.splits sum.splits)

lemma catchBlock_convertedFields:
  "catchBlock opts rb f from cd err st = Continue st' \<Longrightarrow>
   convertedFields st' = convertedFields st"
  by (auto simp: catchBlock_def split: if_splits prod.splits option.splits exn.splits
           dest: report_frame)

lemma convertField_convertedFields:
  assumes "convertField h opts rb f amount from st = Continue st'"
  shows "convertedFields st' = convertedFields st \<or>
         convertedFields st' = convertedFields st @ [targetPath f]"
proof -
  from assms obtain cd where
    cd: "conversionDateOf h opts (dateValueAt f (doc st)) (world st) = Inr cd" "isFinite cd"
    by (auto simp: convertField_def split: sum.splits if_splits)
  obtain r sf where t: "tryBlock opts f amount from cd (cacheKeyOf h from (toCurrency f) cd) st = (r, sf)"
    by (cases "tryBlock opts f amount from cd (cacheKeyOf h from (toCurrency f) cd) st")
  show ?thesis
  proof (cases r)
    case None
    with cd t assms have "st' = sf" by (simp add: convertField_def)
    with tryBlock_convertedFields [OF t] None show ?thesis by simp
  next
    case (Some err)
    with cd t assms have "catchBlock opts rb f from cd err sf = Continue st'"
      by (cases err) (simp_all add: convertField_def)
    then have "convertedFields st' = convertedFields sf"
      by (rule catchBlock_convertedFields)
    with tryBlock_convertedFields [OF t] Some show ?thesis by simp
  qed
qed

lemma part000_convertedFields:
  assumes "processField_part000 h opts f st = Continue st'"
  shows "convertedFields st' = convertedFields st \<or>
         convertedFields st' = convertedFields st @ [targetPath f]"
  using assms
  by (auto simp: processField_part000_def warn_def Let_def
           split: jsval.splits if_splits
           dest: convertField_convertedFields)

text \<open>
  Claim C1 says that a rollback erases the targets written earlier in the run and leaves
  alone the target of a field that was skipped or not yet reached. Three fields: the
  first is skipped (no amount at its source path) and has the target \<open>keep\<close>, the
  second fails (the resolver rejects), the third, with the target \<open>later\<close>, is never
  reached; the document holds 7 at \<open>keep\<close> and 8 at \<open>later\<close>. Nothing was written in
  the run. The rollback of \<open>src/index.ts\<close> sets \<open>keep\<close>, \<open>later\<close> and \<open>result\<close> to
  \<open>undefined\<close>; the rollback of the second copy, over \<open>convertedFields\<close>, leaves the
  document as it was.
\<close>

theorem rollback_erases_unwritten_targets:
  "applyCurrencyConversion exampleHost
     ((exampleOptions [fieldOf ''missing'' ''currency'' ''keep'' ''EUR'',
                       fieldOf ''price'' ''currency'' ''result'' ''GBP'',
                       fieldOf ''price'' ''currency'' ''later'' ''EUR''] (failingRate ''fail GBP''))
        \<lparr>rollbackOnError := True\<rparr>)
     (JObj [(''price'', JNum (Fin 10)), (''currency'', JStr ''USD''),
            (''keep'', JNum (Fin 7)), (''later'', JNum (Fin 8))]) () =
   Resolved \<lparr>doc = JObj [(''price'', JNum (Fin 10)), (''currency'', JStr ''USD''),
                         (''keep'', JUndefined), (''later'', JUndefined),
                         (''result'', JUndefined)],
             world = (), events = [ErrorLogged ''price'' (Thrown ''fail GBP'')],
             convertedFields = []\<rparr> \<and>
   applyCurrencyConversion_part000 exampleHost
     ((exampleOptions [fieldOf ''missing'' ''currency'' ''keep'' ''EUR'',
                       fieldOf ''price'' ''currency'' ''result'' ''GBP'',
                       fieldOf ''price'' ''currency'' ''later'' ''EUR''] (failingRate ''fail GBP''))
        \<lparr>rollbackOnError := True\<rparr>)
     (JObj [(''price'', JNum (Fin 10)), (''currency'', JStr ''USD''),
            (''keep'', JNum (Fin 7)), (''later'', JNum (Fin 8))]) () =
   Resolved \<lparr>doc = JObj [(''price'', JNum (Fin 10)), (''currency'', JStr ''USD''),
                         (''keep'', JNum (Fin 7)), (''later'', JNum (Fin 8))],
             world = (), events = [ErrorLogged ''price'' (Thrown ''fail GBP'')],
             convertedFields = []\<rparr>"
  by code_simp

end
